theory Spec2Isabelle
  imports Main
begin

section \<open>The world outside the class\<close>

text \<open>
  \<^verbatim>\<open>ropod_env.py\<close> defines one class, \<^verbatim>\<open>RopodEnv\<close>, whose methods do nothing but
  call into the operating system (\<^verbatim>\<open>os\<close>, \<^verbatim>\<open>subprocess\<close>, \<^verbatim>\<open>time\<close>, \<^verbatim>\<open>print\<close>) and
  into ROS (\<^verbatim>\<open>rospy\<close>). Those libraries are not part of the repository. Each call
  the class makes is a primitive of the model below: it reads or updates an explicit
  \<open>world\<close> and appends an \<open>event\<close> to the world's trace, so that which calls were
  made, on which process, and in which order, are facts about the result.
\<close>

type_synonym handle = nat
  \<comment> \<open>a \<^verbatim>\<open>subprocess.Popen\<close> object; every spawn yields a new one\<close>

datatype popen_args = ArgList "string list" | ArgStr string
  \<comment> \<open>\<^verbatim>\<open>Popen(['roscore', '-p', port])\<close> takes a list, \<^verbatim>\<open>Popen('gzclient')\<close> a string\<close>

datatype ctext = Colored string string
  \<comment> \<open>\<^verbatim>\<open>termcolor.colored(text, colour)\<close>\<close>

datatype event =
    Print ctext
  | Spawn popen_args handle
  | Sleep nat
  | WaitForService string "nat option"
  | InitNode string
  | Poll handle
  | Terminate handle
  | Wait handle

datatype error =
    IOError string
  | NotImplementedError
  | AttributeError string
  | ROSException string
  | FileNotFoundError string
  | ValueError string

text \<open>
  What the environment decides is a field of the world, fixed from outside:
  \<^item> \<open>path_exists\<close>: the answer of \<^verbatim>\<open>os.path.exists\<close>;
  \<^item> \<open>spawn_error\<close>: the exception with which the operating system refuses to start
    a command (\<^verbatim>\<open>FileNotFoundError\<close> for a program that is not installed), \<open>None\<close>
    when it starts it;
  \<^item> \<open>service_available\<close>: whether the named ROS service ever becomes available;
  \<^item> \<open>returncode\<close>: what \<^verbatim>\<open>poll()\<close> on a process reports now, \<open>None\<close> while the
    process runs;
  \<^item> \<open>exit_code\<close>: the code with which a running process ends if one waits for it,
    \<open>None\<close> when it never ends (a process is free to ignore SIGTERM).
  The theorems quantify over the whole world, so nothing is assumed about what the
  processes do between two calls of a method.
\<close>

record world =
  path_exists :: "string \<Rightarrow> bool"
  spawn_error :: "popen_args \<Rightarrow> error option"
  service_available :: "string \<Rightarrow> bool"
  returncode :: "handle \<Rightarrow> int option"
  exit_code :: "handle \<Rightarrow> int option"
  next_handle :: handle
  trace :: "event list"

section \<open>The instance\<close>

text \<open>
  A Python object has an attribute only once it was assigned. Each attribute of
  \<^verbatim>\<open>self\<close> is therefore optional: \<open>None\<close> is "not assigned yet", and reading it then
  raises \<^verbatim>\<open>AttributeError\<close>. \<^verbatim>\<open>sim_vis_process\<close> holds Python's \<^verbatim>\<open>None\<close> or a process,
  so an assigned value is itself a \<open>handle option\<close>.
\<close>

datatype srv_type = std_srvs_Empty

datatype service_proxy = ServiceProxy string srv_type

record RopodEnv =
  roscore_process :: "handle option"
  sim_process :: "handle option"
  reset_sim_proxy :: "service_proxy option"
  sim_vis_process :: "handle option option"

definition new_object :: RopodEnv where
  "new_object = \<lparr>roscore_process = None, sim_process = None,
                  reset_sim_proxy = None, sim_vis_process = None\<rparr>"

section \<open>Statements\<close>

text \<open>
  A statement runs on the pair of the instance and the world. It returns a value,
  raises, or never returns (\<open>Blocked\<close>: a blocking library call that waits for
  something that does not happen). In each case the state reached is kept.
\<close>

datatype 'a outcome = Returned 'a | Raised error | Blocked

type_synonym state = "RopodEnv \<times> world"

type_synonym 'a prog = "state \<Rightarrow> 'a outcome \<times> state"

definition returns :: "'a \<Rightarrow> 'a prog" where
  "returns x = (\<lambda>s. (Returned x, s))"

definition raises :: "error \<Rightarrow> 'a prog" where
  "raises e = (\<lambda>s. (Raised e, s))"

definition andthen :: "'a prog \<Rightarrow> ('a \<Rightarrow> 'b prog) \<Rightarrow> 'b prog" where
  "andthen m f = (\<lambda>s. case m s of
       (Returned x, s') \<Rightarrow> f x s'
     | (Raised e, s') \<Rightarrow> (Raised e, s')
     | (Blocked, s') \<Rightarrow> (Blocked, s'))"

definition call :: "'a prog \<Rightarrow> unit prog" where
  \<comment> \<open>an expression statement: the value is dropped\<close>
  "call m = andthen m (\<lambda>_. returns ())"

fun seqs :: "unit prog list \<Rightarrow> unit prog" where
  "seqs [] = returns ()"
| "seqs (m # ms) = andthen m (\<lambda>_. seqs ms)"

subsection \<open>Library calls\<close>

definition log :: "event \<Rightarrow> world \<Rightarrow> world" where
  "log e w = w\<lparr>trace := trace w @ [e]\<rparr>"

definition os_path_exists :: "string \<Rightarrow> bool prog" where
  "os_path_exists p = (\<lambda>(self, w). (Returned (path_exists w p), (self, w)))"

definition print_colored :: "string \<Rightarrow> string \<Rightarrow> unit prog" where
  "print_colored text colour = (\<lambda>(self, w). (Returned (), (self, log (Print (Colored text colour)) w)))"

definition time_sleep :: "nat \<Rightarrow> unit prog" where
  "time_sleep n = (\<lambda>(self, w). (Returned (), (self, log (Sleep n) w)))"

fun argv :: "popen_args \<Rightarrow> string list" where
  "argv (ArgList xs) = xs"
| "argv (ArgStr x) = [x]"

definition embedded_null :: "popen_args \<Rightarrow> bool" where
  "embedded_null args = list_ex (\<lambda>a. CHR 0x00 \<in> set a) (argv args)"

definition Popen_error :: "world \<Rightarrow> popen_args \<Rightarrow> error option" where
  \<comment> \<open>what \<^verbatim>\<open>subprocess.Popen(args)\<close> raises, \<open>None\<close> when it starts the process: an
      argument with a NUL byte is refused before anything is started, otherwise the
      operating system decides\<close>
  "Popen_error w args =
     (if embedded_null args then Some (ValueError ''embedded null byte'')
      else spawn_error w args)"

definition subprocess_Popen :: "popen_args \<Rightarrow> handle prog" where
  \<comment> \<open>a \<^verbatim>\<open>Popen\<close> that raises has started no process and yields no object\<close>
  "subprocess_Popen args = (\<lambda>(self, w).
     case Popen_error w args of
       Some e \<Rightarrow> (Raised e, (self, w))
     | None \<Rightarrow>
        (let h = next_handle w in
         (Returned h, (self, (log (Spawn args h) w)
            \<lparr>returncode := (returncode w)(h := None), next_handle := Suc h\<rparr>))))"

definition Popen_poll :: "handle \<Rightarrow> int option prog" where
  "Popen_poll h = (\<lambda>(self, w). (Returned (returncode w h), (self, log (Poll h) w)))"

definition Popen_terminate :: "handle \<Rightarrow> unit prog" where
  \<comment> \<open>sends SIGTERM and returns at once; the process ends later, or not at all\<close>
  "Popen_terminate h = (\<lambda>(self, w). (Returned (), (self, log (Terminate h) w)))"

definition Popen_wait :: "handle \<Rightarrow> int prog" where
  \<comment> \<open>returns only once the process has ended, and then \<^verbatim>\<open>returncode\<close> is set\<close>
  "Popen_wait h = (\<lambda>(self, w).
     let w1 = log (Wait h) w in
     case returncode w h of
       Some rc \<Rightarrow> (Returned rc, (self, w1))
     | None \<Rightarrow>
        (case exit_code w h of
           Some rc \<Rightarrow> (Returned rc, (self, w1\<lparr>returncode := (returncode w)(h := Some rc)\<rparr>))
         | None \<Rightarrow> (Blocked, (self, w1))))"

definition rospy_wait_for_service :: "string \<Rightarrow> nat option \<Rightarrow> unit prog" where
  \<comment> \<open>\<^verbatim>\<open>rospy.wait_for_service(service, timeout=None)\<close>: without a timeout it waits for ever\<close>
  "rospy_wait_for_service name timeout = (\<lambda>(self, w).
     let w1 = log (WaitForService name timeout) w in
     if service_available w name then (Returned (), (self, w1))
     else (case timeout of
             None \<Rightarrow> (Blocked, (self, w1))
           | Some t \<Rightarrow> (Raised (ROSException name), (self, w1))))"

definition rospy_init_node :: "string \<Rightarrow> unit prog" where
  "rospy_init_node name = (\<lambda>(self, w). (Returned (), (self, log (InitNode name) w)))"

subsection \<open>Attributes of \<^verbatim>\<open>self\<close>\<close>

definition getattr :: "(RopodEnv \<Rightarrow> 'a option) \<Rightarrow> string \<Rightarrow> 'a prog" where
  "getattr field name = (\<lambda>(self, w).
     case field self of
       None \<Rightarrow> (Raised (AttributeError name), (self, w))
     | Some v \<Rightarrow> (Returned v, (self, w)))"

definition set_roscore_process :: "handle \<Rightarrow> unit prog" where
  "set_roscore_process h = (\<lambda>(self, w). (Returned (), (self\<lparr>roscore_process := Some h\<rparr>, w)))"

definition set_sim_process :: "handle \<Rightarrow> unit prog" where
  "set_sim_process h = (\<lambda>(self, w). (Returned (), (self\<lparr>sim_process := Some h\<rparr>, w)))"

definition set_reset_sim_proxy :: "service_proxy \<Rightarrow> unit prog" where
  "set_reset_sim_proxy p = (\<lambda>(self, w). (Returned (), (self\<lparr>reset_sim_proxy := Some p\<rparr>, w)))"

definition set_sim_vis_process :: "handle option \<Rightarrow> unit prog" where
  "set_sim_vis_process v = (\<lambda>(self, w). (Returned (), (self\<lparr>sim_vis_process := Some v\<rparr>, w)))"

definition on_roscore_process :: "(handle \<Rightarrow> 'a prog) \<Rightarrow> 'a prog" where
  \<comment> \<open>\<^verbatim>\<open>self.roscore_process.m()\<close>\<close>
  "on_roscore_process m = andthen (getattr roscore_process ''roscore_process'') m"

definition on_sim_process :: "(handle \<Rightarrow> 'a prog) \<Rightarrow> 'a prog" where
  \<comment> \<open>\<^verbatim>\<open>self.sim_process.m()\<close>\<close>
  "on_sim_process m = andthen (getattr sim_process ''sim_process'') m"

definition on_sim_vis_process :: "string \<Rightarrow> (handle \<Rightarrow> 'a prog) \<Rightarrow> 'a prog" where
  \<comment> \<open>\<^verbatim>\<open>self.sim_vis_process.m()\<close>: \<^verbatim>\<open>None\<close> has no method \<^verbatim>\<open>m\<close>\<close>
  "on_sim_vis_process name m =
     andthen (getattr sim_vis_process ''sim_vis_process'')
       (\<lambda>v. case v of None \<Rightarrow> raises (AttributeError name) | Some h \<Rightarrow> m h)"

section \<open>The class \<^verbatim>\<open>RopodEnv\<close>\<close>

definition green :: "string \<Rightarrow> unit prog" where
  \<comment> \<open>\<^verbatim>\<open>print(colored(text, 'green'))\<close>\<close>
  "green text = print_colored text ''green''"

definition init :: "string \<Rightarrow> string \<Rightarrow> string \<Rightarrow> unit prog" where
  \<comment> \<open>\<^verbatim>\<open>__init__(self, launch_file_path, roscore_port, reset_sim_srv_name)\<close>\<close>
  "init launch_file_path roscore_port reset_sim_srv_name =
     andthen (os_path_exists launch_file_path) (\<lambda>ok.
       if \<not> ok then raises (IOError (launch_file_path @ '' is not a valid launch file path''))
       else seqs [
         green ''[RopodEnv] Launching roscore...'',
         andthen (subprocess_Popen (ArgList [''roscore'', ''-p'', roscore_port]))
           set_roscore_process,
         time_sleep 1,
         green ''[RopodEnv] Roscore launched!'',
         green ''[RopodEnv] Launching simulator...'',
         andthen (subprocess_Popen
             (ArgList [''roslaunch'', ''-p'', roscore_port, launch_file_path, ''gui:=false'']))
           set_sim_process,
         green ''[RopodEnv] Simulator launched!'',
         green (''[RopodEnv] Waiting for service '' @ reset_sim_srv_name),
         rospy_wait_for_service reset_sim_srv_name None,
         set_reset_sim_proxy (ServiceProxy reset_sim_srv_name std_srvs_Empty),
         green (''[RopodEnv] Service '' @ reset_sim_srv_name @ '' is up''),
         set_sim_vis_process None,
         green ''[RopodEnv] Initialising ROS node'',
         rospy_init_node ''gym'',
         green ''[RopodEnv] ROS node initialised''])"

definition default_roscore_port :: string where
  "default_roscore_port = ''11311''"

definition default_reset_sim_srv_name :: string where
  "default_reset_sim_srv_name = ''/gazebo/reset_world''"

definition step :: "int \<Rightarrow> unit prog" where
  "step action = raises NotImplementedError"

definition reset :: "unit prog" where
  "reset = raises NotImplementedError"

definition render :: "string \<Rightarrow> unit prog" where
  "render mode =
     andthen (getattr sim_vis_process ''sim_vis_process'') (\<lambda>v.
     andthen (if v = None then returns True
              else andthen (on_sim_vis_process ''poll'' Popen_poll) (\<lambda>r. returns (r \<noteq> None)))
       (\<lambda>c. if c then andthen (subprocess_Popen (ArgStr ''gzclient''))
                        (\<lambda>h. set_sim_vis_process (Some h))
             else returns ()))"

definition close_sim_client :: "unit prog" where
  \<comment> \<open>\<^verbatim>\<open>_close_sim_client(self)\<close>\<close>
  "close_sim_client =
     andthen (getattr sim_vis_process ''sim_vis_process'') (\<lambda>v.
     andthen (if v = None then returns False
              else andthen (on_sim_vis_process ''poll'' Popen_poll) (\<lambda>r. returns (r = None)))
       (\<lambda>c. if c then seqs [on_sim_vis_process ''terminate'' Popen_terminate,
                            call (on_sim_vis_process ''wait'' Popen_wait)]
             else returns ()))"

definition close :: "unit prog" where
  "close = seqs [
     close_sim_client,
     on_sim_process Popen_terminate,
     on_roscore_process Popen_terminate,
     call (on_sim_process Popen_wait),
     call (on_roscore_process Popen_wait)]"

section \<open>Using an instance\<close>

text \<open>
  What can happen to an instance once it exists: a caller invokes one of the four
  public methods, or the world changes from outside (a process ends, a service comes
  up). A caller may catch an exception and go on; after a call that never returns
  nothing more happens.
\<close>

datatype op = Step int | Reset | Render string | Close

fun exec :: "op \<Rightarrow> unit prog" where
  "exec (Step action) = step action"
| "exec Reset = reset"
| "exec (Render mode) = render mode"
| "exec Close = close"

datatype happening = Call op | Outside "world \<Rightarrow> world"

fun is_render :: "happening \<Rightarrow> bool" where
  "is_render (Call (Render mode)) = True"
| "is_render _ = False"

fun run :: "happening list \<Rightarrow> state \<Rightarrow> state" where
  "run [] s = s"
| "run (Outside f # hs) (self, w) = run hs (self, f w)"
| "run (Call c # hs) s =
     (case exec c s of
        (Blocked, s') \<Rightarrow> s'
      | (Returned u, s') \<Rightarrow> run hs s'
      | (Raised e, s') \<Rightarrow> run hs s')"

fun is_spawn :: "event \<Rightarrow> bool" where
  "is_spawn (Spawn args h) = True"
| "is_spawn _ = False"

definition spawns :: "event list \<Rightarrow> event list" where
  "spawns es = filter is_spawn es"

definition wait_result :: "world \<Rightarrow> handle \<Rightarrow> int option" where
  \<comment> \<open>what \<^verbatim>\<open>wait()\<close> on a process yields in a world; \<open>None\<close> when it never returns\<close>
  "wait_result w h = (case returncode w h of Some rc \<Rightarrow> Some rc | None \<Rightarrow> exit_code w h)"

subsection \<open>A concrete world and instances\<close>

definition quiet_world :: world where
  \<comment> \<open>one launch file, every program is installed, the reset service comes up, every
      process runs until told to stop\<close>
  "quiet_world = \<lparr>path_exists = (\<lambda>p. p = ''/sim/ropod.launch''),
                   spawn_error = (\<lambda>a. None),
                   service_available = (\<lambda>n. n = ''/gazebo/reset_world''),
                   returncode = (\<lambda>h. None),
                   exit_code = (\<lambda>h. Some 0),
                   next_handle = 0,
                   trace = []\<rparr>"

definition started_world :: world where
  \<comment> \<open>the quiet world once broker and simulator were spawned\<close>
  "started_world = quiet_world\<lparr>next_handle := 2\<rparr>"

definition fresh_env :: RopodEnv where
  \<comment> \<open>an instance as the constructor leaves it: broker 0, simulator 1, nothing rendered\<close>
  "fresh_env = \<lparr>roscore_process = Some 0, sim_process = Some 1,
                 reset_sim_proxy = Some (ServiceProxy ''/gazebo/reset_world'' std_srvs_Empty),
                 sim_vis_process = Some None\<rparr>"

definition rendered_world :: world where
  \<comment> \<open>the quiet world with the visualization client spawned as well\<close>
  "rendered_world = quiet_world\<lparr>next_handle := 3\<rparr>"

definition rendered_env :: RopodEnv where
  \<comment> \<open>the instance after a first render: the visualization client is process 2\<close>
  "rendered_env = fresh_env\<lparr>sim_vis_process := Some (Some 2)\<rparr>"

definition crashed_world :: world where
  \<comment> \<open>the visualization client has ended with code 1\<close>
  "crashed_world = rendered_world\<lparr>returncode := (\<lambda>h. if h = 2 then Some 1 else None)\<rparr>"

definition bare_world :: world where
  \<comment> \<open>the launch file is there, but none of the programs is installed\<close>
  "bare_world = quiet_world\<lparr>spawn_error :=
     (\<lambda>a. Some (FileNotFoundError ''No such file or directory''))\<rparr>"

definition bare_started_world :: world where
  \<comment> \<open>broker and simulator run, \<^verbatim>\<open>gzclient\<close> is not installed\<close>
  "bare_started_world = started_world\<lparr>spawn_error :=
     (\<lambda>a. if a = ArgStr ''gzclient'' then Some (FileNotFoundError ''gzclient'') else None)\<rparr>"

definition bare_crashed_world :: world where
  \<comment> \<open>the client has ended, and \<^verbatim>\<open>gzclient\<close> is no longer installed\<close>
  "bare_crashed_world = crashed_world\<lparr>spawn_error :=
     (\<lambda>a. if a = ArgStr ''gzclient'' then Some (FileNotFoundError ''gzclient'') else None)\<rparr>"

section \<open>Running statements\<close>

lemmas prim_defs =
  Let_def returns_def raises_def andthen_def call_def log_def os_path_exists_def
  print_colored_def green_def time_sleep_def subprocess_Popen_def Popen_poll_def
  Popen_terminate_def Popen_wait_def rospy_wait_for_service_def rospy_init_node_def
  getattr_def set_roscore_process_def set_sim_process_def set_reset_sim_proxy_def
  set_sim_vis_process_def on_roscore_process_def on_sim_process_def
  on_sim_vis_process_def

lemmas spawn_defs = Popen_error_def embedded_null_def

lemmas example_defs =
  quiet_world_def started_world_def fresh_env_def rendered_world_def rendered_env_def
  crashed_world_def bare_world_def bare_started_world_def bare_crashed_world_def
  new_object_def

text \<open>
  \<^verbatim>\<open>_close_sim_client\<close> on any state: nothing to do without a client, one \<^verbatim>\<open>poll\<close>
  for a client that has ended, \<^verbatim>\<open>poll\<close>, \<^verbatim>\<open>terminate\<close> and \<^verbatim>\<open>wait\<close> for one that runs.
\<close>

lemma close_sim_client_run:
  "close_sim_client (self, w) =
     (case sim_vis_process self of
        None \<Rightarrow> (Raised (AttributeError ''sim_vis_process''), (self, w))
      | Some None \<Rightarrow> (Returned (), (self, w))
      | Some (Some h) \<Rightarrow>
         (case returncode w h of
            Some rc \<Rightarrow> (Returned (), (self, w\<lparr>trace := trace w @ [Poll h]\<rparr>))
          | None \<Rightarrow>
             (case exit_code w h of
                Some rc \<Rightarrow>
                  (Returned (), (self, w\<lparr>returncode := (returncode w)(h := Some rc),
                                         trace := trace w @ [Poll h, Terminate h, Wait h]\<rparr>))
              | None \<Rightarrow>
                  (Blocked, (self, w\<lparr>trace := trace w @ [Poll h, Terminate h, Wait h]\<rparr>)))))"
  by (simp add: close_sim_client_def prim_defs split: option.splits)

lemma close_sim_client_self: "fst (snd (close_sim_client (self, w))) = self"
  by (simp add: close_sim_client_run split: option.splits)

text \<open>The four statements of \<^verbatim>\<open>close\<close> after \<^verbatim>\<open>_close_sim_client\<close>.\<close>

lemma close_unfold:
  "close = andthen close_sim_client (\<lambda>_.
     seqs [on_sim_process Popen_terminate, on_roscore_process Popen_terminate,
           call (on_sim_process Popen_wait), call (on_roscore_process Popen_wait)])"
  by (simp add: close_def)

lemma stop_both_run:
  assumes "sim_process self = Some sp" "roscore_process self = Some rp"
  shows "seqs [on_sim_process Popen_terminate, on_roscore_process Popen_terminate,
           call (on_sim_process Popen_wait), call (on_roscore_process Popen_wait)] (self, w) =
     (case wait_result w sp of
        None \<Rightarrow> (Blocked, (self, w\<lparr>trace := trace w @ [Terminate sp, Terminate rp, Wait sp]\<rparr>))
      | Some c1 \<Rightarrow>
         (case wait_result (w\<lparr>returncode := (returncode w)(sp := Some c1)\<rparr>) rp of
            None \<Rightarrow>
              (Blocked, (self, w\<lparr>returncode := (returncode w)(sp := Some c1),
                 trace := trace w @ [Terminate sp, Terminate rp, Wait sp, Wait rp]\<rparr>))
          | Some c2 \<Rightarrow>
              (Returned (), (self, w\<lparr>returncode := (returncode w)(sp := Some c1, rp := Some c2),
                 trace := trace w @ [Terminate sp, Terminate rp, Wait sp, Wait rp]\<rparr>))))"
  using assms
  by (auto simp add: prim_defs wait_result_def fun_upd_idem split: option.splits)

lemma stop_both_self:
  "fst (snd (seqs [on_sim_process Popen_terminate, on_roscore_process Popen_terminate,
           call (on_sim_process Popen_wait), call (on_roscore_process Popen_wait)] (self, w))) = self"
  by (simp add: prim_defs split: option.splits)

lemma stop_both_unset:
  assumes "sim_process self = None \<or> roscore_process self = None"
  shows "fst (seqs [on_sim_process Popen_terminate, on_roscore_process Popen_terminate,
           call (on_sim_process Popen_wait), call (on_roscore_process Popen_wait)] (self, w))
         \<noteq> Returned ()"
  using assms by (auto simp add: prim_defs split: option.splits)

lemma close_self: "fst (snd (close (self, w))) = self"
proof (cases "close_sim_client (self, w)")
  case (fields out self' w')
  with close_sim_client_self [of self w] have "self' = self" by simp
  with fields show ?thesis
    using stop_both_self [of self w']
    by (cases out) (simp_all add: close_unfold andthen_def)
qed

lemma close_returned_rest:
  assumes "close (self, w) = (Returned (), (self', w'))"
  shows "\<exists>w1. seqs [on_sim_process Popen_terminate, on_roscore_process Popen_terminate,
           call (on_sim_process Popen_wait), call (on_roscore_process Popen_wait)] (self, w1) =
           (Returned (), (self', w'))"
proof (cases "close_sim_client (self, w)")
  case (fields out self1 w1)
  with close_sim_client_self [of self w] have "self1 = self" by simp
  with fields assms show ?thesis
    by (cases out) (auto simp add: close_unfold andthen_def simp del: seqs.simps)
qed

text \<open>Methods other than \<^verbatim>\<open>render\<close> assign no attribute.\<close>

lemma init_returned_vis:
  assumes "init p port srv (self0, w0) = (Returned (), (self1, w1))"
  shows "sim_vis_process self1 = Some None"
  using assms by (auto simp add: init_def prim_defs split: if_splits option.splits)

lemma exec_other_self:
  assumes "\<forall>mode. c \<noteq> Render mode"
  shows "fst (snd (exec c (self, w))) = self"
  using assms by (cases c) (simp_all add: step_def reset_def raises_def close_self)

lemma run_no_render_self:
  assumes "\<forall>h \<in> set hs. \<not> is_render h"
  shows "fst (run hs (self, w)) = self"
  using assms
proof (induction hs arbitrary: w)
  case Nil
  show ?case by simp
next
  case (Cons a hs)
  show ?case
  proof (cases a)
    case (Outside f)
    with Cons show ?thesis by simp
  next
    case (Call c)
    with Cons.prems have "\<forall>mode. c \<noteq> Render mode" by auto
    from exec_other_self [OF this, of self w]
    obtain out w' where e: "exec c (self, w) = (out, (self, w'))"
      by (cases "exec c (self, w)") auto
    from Cons.prems have "fst (run hs (self, w')) = self"
      by (intro Cons.IH) simp
    with Call e show ?thesis by (cases out) simp_all
  qed
qed

section \<open>Construction\<close>

text \<open>
  Claim C1. When \<^verbatim>\<open>os.path.exists(launch_file_path)\<close> is false the constructor
  raises \<^verbatim>\<open>IOError\<close> with the message naming the path, and it reaches the \<^verbatim>\<open>raise\<close>
  with the instance and the world exactly as they were: no attribute of \<^verbatim>\<open>self\<close> was
  assigned, no process handle was allocated and the trace holds no new call (no
  broker, simulator or visualization process was spawned).
\<close>

theorem init_invalid_path:
  assumes "\<not> path_exists w launch_file_path"
  shows "init launch_file_path roscore_port reset_sim_srv_name (self, w) =
           (Raised (IOError (launch_file_path @ '' is not a valid launch file path'')), (self, w))"
  using assms by (simp add: init_def os_path_exists_def andthen_def raises_def)

theorem init_invalid_path_witness:
  "\<not> path_exists quiet_world ''/nowhere'' \<and>
   init ''/nowhere'' default_roscore_port default_reset_sim_srv_name (new_object, quiet_world) =
     (Raised (IOError ''/nowhere is not a valid launch file path''), (new_object, quiet_world))"
proof -
  have h: "\<not> path_exists quiet_world ''/nowhere''"
    by (simp add: quiet_world_def)
  show ?thesis
    using h init_invalid_path [OF h, of default_roscore_port default_reset_sim_srv_name new_object]
    by simp
qed




section \<open>Unimplemented methods\<close>

text \<open>
  Claim C3. For every action, \<^verbatim>\<open>step(action)\<close> on the base class raises
  \<^verbatim>\<open>NotImplementedError\<close>, and so does \<^verbatim>\<open>reset()\<close>; both leave the instance (and the
  world) exactly as they found it.
\<close>

theorem step_reset_not_implemented:
  "step action s = (Raised NotImplementedError, s) \<and> reset s = (Raised NotImplementedError, s)"
  by (simp add: step_def reset_def raises_def)

section \<open>Rendering\<close>

text \<open>
  Claim C10. \<^verbatim>\<open>render\<close> ignores its mode: from every state, \<^verbatim>\<open>render(m1)\<close> and
  \<^verbatim>\<open>render(m2)\<close> have the same outcome, reach the same instance and world, and so
  leave the same trace of calls.
\<close>

theorem render_ignores_mode:
  "render m1 s = render m2 s"
  by (simp add: render_def)

text \<open>
  Claim C4, as amended. While the visualization client runs, \<^verbatim>\<open>render\<close> is idempotent:
  when the handle holds a process whose \<^verbatim>\<open>poll()\<close> is \<^verbatim>\<open>None\<close>, a call only polls that
  process; it spawns nothing and leaves the instance unchanged. Hence, when the spawn
  of \<^verbatim>\<open>gzclient\<close> succeeds, two calls in a row on an instance that has no client yet,
  with the client still running at the second call whatever else happened in the
  world between the two, spawn exactly one process, \<^verbatim>\<open>gzclient\<close>, and it is the first
  call that spawns it. When the spawn raises, the call ends with that exception and
  nothing has changed.
\<close>

theorem render_idempotent_while_alive:
  "(sim_vis_process self = Some (Some v) \<and> returncode w v = None \<longrightarrow>
      render mode (self, w) = (Returned (), (self, log (Poll v) w)))
   \<and> (sim_vis_process env = Some None \<and>
      Popen_error wld (ArgStr ''gzclient'') = None \<and>
      render mode_a (env, wld) = (out_a, (env_a, wld_a)) \<and>
      trace between = trace wld_a \<and> returncode between (next_handle wld) = None \<and>
      render mode_b (env_a, between) = (out_b, (env_b, wld_b)) \<longrightarrow>
        out_a = Returned () \<and> out_b = Returned () \<and>
        sim_vis_process env_a = Some (Some (next_handle wld)) \<and> env_b = env_a \<and>
        spawns (trace wld_a) = spawns (trace wld) @ [Spawn (ArgStr ''gzclient'') (next_handle wld)] \<and>
        spawns (trace wld_b) = spawns (trace wld_a))
   \<and> (sim_vis_process env = Some None \<longrightarrow>
        render mode_a (env, wld) =
          (case Popen_error wld (ArgStr ''gzclient'') of
             None \<Rightarrow>
               (Returned (),
                (env\<lparr>sim_vis_process := Some (Some (next_handle wld))\<rparr>,
                 wld\<lparr>returncode := (returncode wld)(next_handle wld := None),
                     next_handle := Suc (next_handle wld),
                     trace := trace wld @ [Spawn (ArgStr ''gzclient'') (next_handle wld)]\<rparr>))
           | Some e \<Rightarrow> (Raised e, (env, wld))))"
  by (auto simp add: render_def prim_defs spawns_def split: option.splits)

theorem render_idempotent_while_alive_witness:
  "sim_vis_process rendered_env = Some (Some 2) \<and> returncode rendered_world 2 = None \<and>
   render ''human'' (rendered_env, rendered_world) =
     (Returned (), (rendered_env, log (Poll 2) rendered_world)) \<and>
   sim_vis_process fresh_env = Some None \<and>
   Popen_error started_world (ArgStr ''gzclient'') = None \<and>
   spawns (trace (snd (snd (render ''human'' (snd (render ''human'' (fresh_env, started_world))))))) =
     [Spawn (ArgStr ''gzclient'') 2] \<and>
   Popen_error bare_started_world (ArgStr ''gzclient'') = Some (FileNotFoundError ''gzclient'') \<and>
   fst (render ''human'' (fresh_env, bare_started_world)) = Raised (FileNotFoundError ''gzclient'')"
proof -
  let ?a = "render ''human'' (fresh_env, started_world)"
  let ?b = "render ''human'' (snd ?a)"
  note t = render_idempotent_while_alive
    [where self = rendered_env and v = 2 and w = rendered_world and mode = "''human''"
       and env = fresh_env and wld = started_world and mode_a = "''human''"
       and out_a = "fst ?a" and env_a = "fst (snd ?a)" and wld_a = "snd (snd ?a)"
       and between = "snd (snd ?a)" and mode_b = "''human''"
       and out_b = "fst ?b" and env_b = "fst (snd ?b)" and wld_b = "snd (snd ?b)"]
  show ?thesis
    using t by (simp add: example_defs render_def prim_defs spawns_def spawn_defs)
qed

text \<open>
  Claim C4 as it was written does not hold where \<^verbatim>\<open>gzclient\<close> cannot be started. On
  an instance without a client the first \<^verbatim>\<open>render\<close> raises \<^verbatim>\<open>FileNotFoundError\<close> and
  changes nothing, so does the second, and the two calls have started no
  visualization process at all.
\<close>

theorem render_idempotent_while_alive_counterexample:
  "sim_vis_process fresh_env = Some None \<and>
   render ''human'' (fresh_env, bare_started_world) =
     (Raised (FileNotFoundError ''gzclient''), (fresh_env, bare_started_world)) \<and>
   spawns (trace (snd (snd (render ''human''
             (snd (render ''human'' (fresh_env, bare_started_world))))))) = []"
  by (simp add: render_def prim_defs spawns_def spawn_defs example_defs)

text \<open>
  Claim C9, as amended. \<^verbatim>\<open>render\<close> restarts a dead visualization client: when the
  handle holds a process whose \<^verbatim>\<open>poll()\<close> reports an exit status, the call polls it
  and spawns \<^verbatim>\<open>gzclient\<close> anew. When that spawn succeeds, the handle of the new
  process, which is running, is stored in place of the old one. When it raises, the
  call ends with that exception, no process is spawned and the handle of the dead
  process stays.
\<close>

theorem render_restarts_dead_client:
  assumes "sim_vis_process self = Some (Some v)" and "returncode w v = Some rc"
  shows "render mode (self, w) =
     (case Popen_error w (ArgStr ''gzclient'') of
        None \<Rightarrow>
          (Returned (),
           (self\<lparr>sim_vis_process := Some (Some (next_handle w))\<rparr>,
            w\<lparr>returncode := (returncode w)(next_handle w := None),
              next_handle := Suc (next_handle w),
              trace := trace w @ [Poll v, Spawn (ArgStr ''gzclient'') (next_handle w)]\<rparr>))
      | Some e \<Rightarrow> (Raised e, (self, w\<lparr>trace := trace w @ [Poll v]\<rparr>)))"
  using assms by (simp add: render_def prim_defs Popen_error_def split: option.splits)

theorem render_restarts_dead_client_witness:
  "sim_vis_process rendered_env = Some (Some 2) \<and> returncode crashed_world 2 = Some 1 \<and>
   sim_vis_process (fst (snd (render ''human'' (rendered_env, crashed_world)))) = Some (Some 3) \<and>
   trace (snd (snd (render ''human'' (rendered_env, crashed_world)))) =
     [Poll 2, Spawn (ArgStr ''gzclient'') 3]"
proof -
  have h1: "sim_vis_process rendered_env = Some (Some 2)"
    by (simp add: example_defs)
  have h2: "returncode crashed_world 2 = Some 1"
    by (simp add: example_defs)
  show ?thesis
    using h1 h2 render_restarts_dead_client [OF h1 h2, of "''human''"]
    by (simp add: example_defs spawn_defs)
qed

text \<open>
  Claim C9 as it was written does not hold in every state with a dead client. Where
  \<^verbatim>\<open>gzclient\<close> can no longer be started, \<^verbatim>\<open>render\<close> polls the dead process, raises
  \<^verbatim>\<open>FileNotFoundError\<close>, spawns nothing and keeps the old handle.
\<close>

theorem render_restarts_dead_client_counterexample:
  "sim_vis_process rendered_env = Some (Some 2) \<and> returncode bare_crashed_world 2 = Some 1 \<and>
   fst (render ''human'' (rendered_env, bare_crashed_world)) =
     Raised (FileNotFoundError ''gzclient'') \<and>
   sim_vis_process (fst (snd (render ''human'' (rendered_env, bare_crashed_world)))) =
     Some (Some 2) \<and>
   trace (snd (snd (render ''human'' (rendered_env, bare_crashed_world)))) = [Poll 2]"
  by (simp add: render_def prim_defs spawn_defs example_defs)

section \<open>Closing\<close>

text \<open>
  Claim C5. \<^verbatim>\<open>close()\<close> on an instance whose visualization handle is still \<^verbatim>\<open>None\<close>
  raises nothing. The calls it makes are \<^verbatim>\<open>terminate\<close> on the simulator,
  \<^verbatim>\<open>terminate\<close> on the broker, \<^verbatim>\<open>wait\<close> on the simulator and \<^verbatim>\<open>wait\<close> on the broker, in
  this order and nothing else (a \<^verbatim>\<open>wait\<close> on a process that never ends does not return,
  and then the calls after it are not reached). No other process has its status
  changed, none is spawned, and the instance, with its \<^verbatim>\<open>None\<close> handle, is as before.
  When both processes end, \<^verbatim>\<open>close()\<close> returns.
\<close>

theorem close_without_render:
  assumes "sim_vis_process self = Some None"
    and "sim_process self = Some sp" and "roscore_process self = Some rp"
  shows "case close (self, w) of (out, self', w') \<Rightarrow>
      self' = self \<and>
      (out = Returned () \<or> out = Blocked) \<and>
      (trace w' = trace w @ [Terminate sp, Terminate rp, Wait sp, Wait rp] \<or>
        out = Blocked \<and> trace w' = trace w @ [Terminate sp, Terminate rp, Wait sp]) \<and>
      (\<forall>h. h \<noteq> sp \<and> h \<noteq> rp \<longrightarrow> returncode w' h = returncode w h) \<and>
      next_handle w' = next_handle w \<and>
      (wait_result w sp \<noteq> None \<and> wait_result w rp \<noteq> None \<longrightarrow> out = Returned ())"
proof -
  have c: "close (self, w) =
      seqs [on_sim_process Popen_terminate, on_roscore_process Popen_terminate,
            call (on_sim_process Popen_wait), call (on_roscore_process Popen_wait)] (self, w)"
    using assms(1) by (simp add: close_unfold andthen_def close_sim_client_run del: seqs.simps)
  show ?thesis
    unfolding c stop_both_run [OF assms(2,3)]
    by (auto simp add: wait_result_def split: option.splits)
qed

theorem close_without_render_witness:
  "sim_vis_process fresh_env = Some None \<and> sim_process fresh_env = Some 1 \<and>
   roscore_process fresh_env = Some 0 \<and>
   fst (close (fresh_env, started_world)) = Returned () \<and>
   fst (snd (close (fresh_env, started_world))) = fresh_env \<and>
   trace (snd (snd (close (fresh_env, started_world)))) =
     [Terminate 1, Terminate 0, Wait 1, Wait 0]"
proof -
  have h1: "sim_vis_process fresh_env = Some None"
    and h2: "sim_process fresh_env = Some 1"
    and h3: "roscore_process fresh_env = Some 0"
    by (simp_all add: example_defs)
  have r: "wait_result started_world 1 \<noteq> None \<and> wait_result started_world 0 \<noteq> None"
    by (simp add: wait_result_def example_defs)
  have t: "trace started_world = []"
    by (simp add: example_defs)
  show ?thesis
    using h1 h2 h3 r t close_without_render [OF h1 h2 h3, of started_world]
    by (auto split: prod.splits)
qed

text \<open>
  Claim C6. When \<^verbatim>\<open>close()\<close> has returned, the instance holds a simulator and a broker
  process, and \<^verbatim>\<open>poll()\<close> on either reports an exit status.
\<close>

theorem close_postcondition:
  assumes "close (self, w) = (Returned (), (self', w'))"
  shows "\<exists>sp rp. sim_process self' = Some sp \<and> roscore_process self' = Some rp \<and>
           returncode w' sp \<noteq> None \<and> returncode w' rp \<noteq> None"
proof -
  from close_returned_rest [OF assms] obtain w1 where
    rest: "seqs [on_sim_process Popen_terminate, on_roscore_process Popen_terminate,
           call (on_sim_process Popen_wait), call (on_roscore_process Popen_wait)] (self, w1) =
           (Returned (), (self', w'))" ..
  from rest stop_both_unset [of self w1] obtain sp rp
    where sp: "sim_process self = Some sp" and rp: "roscore_process self = Some rp"
    by (cases "sim_process self"; cases "roscore_process self") (simp_all del: seqs.simps)
  from rest have "self' = self \<and> returncode w' sp \<noteq> None \<and> returncode w' rp \<noteq> None"
    unfolding stop_both_run [OF sp rp]
    by (auto split: option.splits)
  with sp rp show ?thesis by simp
qed

theorem close_postcondition_witness:
  "fst (close (rendered_env, rendered_world)) = Returned () \<and>
   returncode (snd (snd (close (rendered_env, rendered_world)))) 1 = Some 0 \<and>
   returncode (snd (snd (close (rendered_env, rendered_world)))) 0 = Some 0"
proof -
  let ?r = "close (rendered_env, rendered_world)"
  have ret: "fst ?r = Returned ()"
    by (simp add: close_def close_sim_client_def prim_defs example_defs)
  then have h: "?r = (Returned (), (fst (snd ?r), snd (snd ?r)))"
    by (metis prod.collapse)
  have env: "fst (snd ?r) = rendered_env"
    by (rule close_self)
  show ?thesis
    using ret close_postcondition [OF h]
    by (simp add: env example_defs close_def close_sim_client_def prim_defs)
qed

text \<open>
  Claim C7. The order of teardown in \<^verbatim>\<open>close()\<close>, on an instance whose attributes are
  set. First the visualization client: nothing when the handle is \<^verbatim>\<open>None\<close>, one \<^verbatim>\<open>poll\<close>
  when the client has ended, and \<^verbatim>\<open>poll\<close>, \<^verbatim>\<open>terminate\<close>, \<^verbatim>\<open>wait\<close> when it runs. Unless
  that \<^verbatim>\<open>wait\<close> never returns, \<^verbatim>\<open>terminate\<close> on the simulator and then on the broker
  follow, then \<^verbatim>\<open>wait\<close> on the simulator and, unless this one never returns, \<^verbatim>\<open>wait\<close> on
  the broker. The call returns exactly when none of the processes it waits for fails
  to end; otherwise it is blocked in the first \<^verbatim>\<open>wait\<close> on a process that never ends.
\<close>

theorem close_teardown_order:
  assumes "sim_vis_process self = Some v"
    and "sim_process self = Some sp" and "roscore_process self = Some rp"
  shows "let client = (case v of
                         None \<Rightarrow> []
                       | Some h \<Rightarrow> if returncode w h = None then [Poll h, Terminate h, Wait h]
                                   else [Poll h]);
             client_hangs = (case v of None \<Rightarrow> False | Some h \<Rightarrow> wait_result w h = None);
             sim_hangs = (wait_result w sp = None);
             broker_hangs = (wait_result w rp = None)
         in trace (snd (snd (close (self, w)))) =
              trace w @ client @
              (if client_hangs then []
               else if sim_hangs then [Terminate sp, Terminate rp, Wait sp]
               else [Terminate sp, Terminate rp, Wait sp, Wait rp])
          \<and> fst (close (self, w)) =
              (if client_hangs \<or> sim_hangs \<or> broker_hangs then Blocked else Returned ())
          \<and> fst (snd (close (self, w))) = self"
  using assms(1)
  by (auto simp add: close_unfold andthen_def close_sim_client_run stop_both_run [OF assms(2,3)]
        wait_result_def Let_def simp del: seqs.simps split: option.splits)

theorem close_teardown_order_witness:
  "sim_vis_process rendered_env = Some (Some 2) \<and> sim_process rendered_env = Some 1 \<and>
   roscore_process rendered_env = Some 0 \<and>
   fst (close (rendered_env, rendered_world)) = Returned () \<and>
   trace (snd (snd (close (rendered_env, rendered_world)))) =
     [Poll 2, Terminate 2, Wait 2, Terminate 1, Terminate 0, Wait 1, Wait 0]"
proof -
  have h1: "sim_vis_process rendered_env = Some (Some 2)"
    and h2: "sim_process rendered_env = Some 1"
    and h3: "roscore_process rendered_env = Some 0"
    by (simp_all add: example_defs)
  have r: "returncode rendered_world = (\<lambda>h. None)"
    and e: "exit_code rendered_world = (\<lambda>h. Some 0)"
    and t: "trace rendered_world = []"
    by (simp_all add: example_defs)
  show ?thesis
    using h1 h2 h3 close_teardown_order [OF h1 h2 h3, of rendered_world]
    by (simp add: Let_def wait_result_def r e t)
qed

section \<open>The visualization handle\<close>

text \<open>
  Claim C8. When the constructor has returned, the visualization handle is \<^verbatim>\<open>None\<close>,
  and it is still \<^verbatim>\<open>None\<close> after any sequence of calls of \<^verbatim>\<open>step\<close>, \<^verbatim>\<open>reset\<close> and
  \<^verbatim>\<open>close\<close> and of changes of the world from outside, as long as \<^verbatim>\<open>render\<close> was not
  called. A call of a public method that leaves the handle different from what it was is
  a call of \<^verbatim>\<open>render\<close>.
\<close>

theorem vis_handle_none_until_render:
  "(init p port srv (obj, wld) = (Returned (), st) \<and> (\<forall>h \<in> set hs. \<not> is_render h) \<longrightarrow>
       sim_vis_process (fst (run hs st)) = Some None)
   \<and> (sim_vis_process (fst (snd (exec c (self, w)))) \<noteq> sim_vis_process self \<longrightarrow>
       (\<exists>mode. c = Render mode))"
proof (intro conjI impI)
  assume a: "init p port srv (obj, wld) = (Returned (), st) \<and> (\<forall>h \<in> set hs. \<not> is_render h)"
  obtain self1 w1 where st: "st = (self1, w1)" by (cases st)
  with a init_returned_vis have "sim_vis_process self1 = Some None" by blast
  with a st run_no_render_self show "sim_vis_process (fst (run hs st)) = Some None" by simp
next
  assume "sim_vis_process (fst (snd (exec c (self, w)))) \<noteq> sim_vis_process self"
  with exec_other_self [of c self w] show "\<exists>mode. c = Render mode" by metis
qed

theorem vis_handle_none_until_render_witness:
  "fst (init ''/sim/ropod.launch'' ''11311'' ''/gazebo/reset_world'' (new_object, quiet_world)) =
     Returned () \<and>
   sim_vis_process (fst (run [Call (Step 0), Outside (\<lambda>w. w\<lparr>returncode := (\<lambda>h. Some 0)\<rparr>),
                              Call Reset, Call Close]
      (snd (init ''/sim/ropod.launch'' ''11311'' ''/gazebo/reset_world'' (new_object, quiet_world))))) =
     Some None \<and>
   sim_vis_process (fst (snd (exec (Render ''human'') (fresh_env, started_world)))) \<noteq>
     sim_vis_process fresh_env"
proof -
  let ?i = "init ''/sim/ropod.launch'' ''11311'' ''/gazebo/reset_world'' (new_object, quiet_world)"
  let ?hs = "[Call (Step 0), Outside (\<lambda>w. w\<lparr>returncode := (\<lambda>h. Some 0)\<rparr>), Call Reset, Call Close]"
  have ret: "fst ?i = Returned ()"
    by (simp add: init_def prim_defs spawn_defs example_defs)
  then have i: "?i = (Returned (), snd ?i)"
    by (metis prod.collapse)
  have hs: "\<forall>h \<in> set ?hs. \<not> is_render h"
    by simp
  have r: "sim_vis_process (fst (snd (exec (Render ''human'') (fresh_env, started_world)))) \<noteq>
             sim_vis_process fresh_env"
    by (simp add: render_def prim_defs spawn_defs example_defs)
  note t = vis_handle_none_until_render
    [where p = "''/sim/ropod.launch''" and port = "''11311''" and srv = "''/gazebo/reset_world''"
       and obj = new_object and wld = quiet_world and st = "snd ?i" and hs = ?hs
       and c = "Render ''human''" and self = fresh_env and w = started_world]
  from t i hs have "sim_vis_process (fst (run ?hs (snd ?i))) = Some None"
    by blast
  with ret r show ?thesis
    by blast
qed

end
